theory Spec2Isabelle
  imports Complex_Main
begin

section \<open>Conventions\<close>

text \<open>
  The scripts compute with Python floats. Throughout this development a float is a
  \<^typ>\<open>real\<close>: rounding, overflow, signed zeros and NaN are outside the model, so
  every statement below is about the exact arithmetic the formulas of the source denote.
  Where rounding decides what the program does, this is said at the definition and at
  the claim concerned.
  Python integers are \<^typ>\<open>int\<close>, strings are \<^typ>\<open>string\<close>.

  Exceptions are values: a function that can raise returns \<open>error + 'a\<close>, with
  \<open>Inl\<close> carrying the exception.
\<close>

datatype error =
    ValueError string
  | ZeroDivisionError
  | KeyError string
  | TypeError
  | NameError string
  | AttributeError string
  | UnboundLocalError string
  | RecursionError

section \<open>lib/utils.py (not part of the sources at hand)\<close>

text \<open>
  Modelled from the spec: \<open>utils.put_angle_in_range\<close> is imported by
  \<open>lib/optics.py\<close> but its module is missing. The specification (section 4.1) says it
  "wraps an angle into [0, 2pi)"; the definition subtracts the whole number of turns.
\<close>

definition put_angle_in_range :: "real \<Rightarrow> real" where
  "put_angle_in_range angle = angle - 2 * pi * of_int \<lfloor>angle / (2 * pi)\<rfloor>"

text \<open>
  Modelled from the spec: \<open>utils.radians\<close> is the "angle conversion" of section 4.1,
  degrees to radians.
\<close>

definition radians :: "real \<Rightarrow> real" where
  "radians deg = deg * pi / 180"

section \<open>lib/optics.py: linear phase ranges\<close>

text \<open>
  The loop of \<open>lin_phase_range\<close>: \<open>range(n_steps - 1)\<close> iterations, each appending
  \<open>put_angle_in_range(phases[-1] + step)\<close>. The list is never empty, so
  \<open>phases[-1]\<close> is \<^const>\<open>last\<close>.
\<close>

fun phase_steps :: "nat \<Rightarrow> real \<Rightarrow> real list \<Rightarrow> real list" where
  "phase_steps 0 step phases = phases"
| "phase_steps (Suc k) step phases =
     phase_steps k step (phases @ [put_angle_in_range (last phases + step)])"

text \<open>
  \<open>abs_diff\<close> after the reduction to the shorter angular path.
\<close>

definition short_diff :: "real \<Rightarrow> real \<Rightarrow> real" where
  "short_diff mu_min mu_max =
     (let abs_diff = \<bar>mu_max - mu_min\<bar>
      in if abs_diff > pi then 2 * pi - abs_diff else abs_diff)"

text \<open>
  \<open>lin_phase_range(mu_min, mu_max, n_steps, endpoint)\<close>. The division of a float by
  the integer zero raises \<open>ZeroDivisionError\<close>; \<open>range\<close> of a negative number is
  empty, hence \<^const>\<open>nat\<close>.
\<close>

definition lin_phase_range :: "real \<Rightarrow> real \<Rightarrow> int \<Rightarrow> bool \<Rightarrow> error + real list" where
  "lin_phase_range mu_min mu_max n_steps endpoint =
     (let abs_diff = short_diff mu_min mu_max;
          denom = (if endpoint then n_steps - 1 else n_steps)
      in if denom = 0 then Inl ZeroDivisionError
         else Inr (phase_steps (nat (n_steps - 1)) (abs_diff / of_int denom) [mu_min]))"

section \<open>lib/optics.py: phases for a scan\<close>

text \<open>
  \<open>PhaseController.get_phases_for_scan(phase_coverage, n_steps, scan_type)\<close>. The
  method first reads the default phase advances \<open>mux0, muy0\<close> from the online model
  (an external simulation); they are arguments here. \<open>int(n_steps) // 2\<close> is
  \<^const>\<open>divide\<close> on \<^typ>\<open>int\<close>, which rounds down as Python does; \<open>n * [mux0]\<close>
  is empty for negative \<open>n\<close>. With a \<open>scan_type\<close> other than 1 or 2 neither branch
  binds \<open>phases_x\<close>, and the comprehension raises \<open>UnboundLocalError\<close>. A pair
  \<open>[mux, muy]\<close> is a HOL pair.
\<close>

definition get_phases_for_scan ::
  "real \<Rightarrow> real \<Rightarrow> real \<Rightarrow> int \<Rightarrow> int \<Rightarrow> error + (real \<times> real) list" where
  "get_phases_for_scan mux0 muy0 phase_coverage n_steps scan_type =
     (let n = n_steps div 2;
          phase_coverage = radians phase_coverage;
          mux_min = put_angle_in_range (mux0 - 0.5 * phase_coverage);
          mux_max = put_angle_in_range (mux0 + 0.5 * phase_coverage);
          muy_min = put_angle_in_range (muy0 - 0.5 * phase_coverage);
          muy_max = put_angle_in_range (muy0 + 0.5 * phase_coverage)
      in if scan_type = 1 then
           (case lin_phase_range mux_min mux_max n_steps True of
              Inl e \<Rightarrow> Inl e
            | Inr phases_x \<Rightarrow>
                (case lin_phase_range muy_min muy_max n_steps True of
                   Inl e \<Rightarrow> Inl e
                 | Inr phases_y \<Rightarrow> Inr (zip phases_x (rev phases_y))))
         else if scan_type = 2 then
           (case lin_phase_range mux_min mux_max n True of
              Inl e \<Rightarrow> Inl e
            | Inr xs \<Rightarrow>
                (case lin_phase_range muy_min muy_max n True of
                   Inl e \<Rightarrow> Inl e
                 | Inr ys \<Rightarrow>
                     Inr (zip (xs @ replicate (nat n) mux0) (replicate (nat n) muy0 @ ys))))
         else Inl (UnboundLocalError ''phases_x''))"

section \<open>lib/optics.py: quadrupole fields\<close>

text \<open>
  The part of a \<open>PhaseController\<close> that the field operations touch. The accelerator
  nodes, the simulation scenario and the control-system channels are external services;
  each is a store indexed by the quadrupole id:
  \<^item> \<open>model_field\<close>: the field of the scenario elements mapped to the node;
  \<^item> \<open>live_field\<close>: what \<open>node.setField\<close> writes and \<open>node.getField\<close> reads;
  \<^item> \<open>book_channel\<close>: the raw value of the book channel, converted by the node's
    \<open>toFieldFromCA\<close> and \<open>toCAFromField\<close>;
  \<^item> \<open>shared_power\<close>: the dictionary of quads on the same power supply;
  \<^item> \<open>recursion_limit\<close>: the call depth the interpreter has left;
  \<^item> \<open>book_puts\<close>: every value written to a book channel by \<open>putVal\<close>, with the
    quad it belongs to, in order (the store above keeps only the last one);
  \<^item> \<open>warned\<close>, \<open>slept\<close>: the warnings issued and the pauses taken, in order.
\<close>

record controller =
  model_field :: "string \<Rightarrow> real"
  live_field :: "string \<Rightarrow> real"
  book_channel :: "string \<Rightarrow> real"
  toFieldFromCA :: "string \<Rightarrow> real \<Rightarrow> real"
  toCAFromField :: "string \<Rightarrow> real \<Rightarrow> real"
  shared_power :: "string \<rightharpoonup> string list"
  recursion_limit :: nat
  book_puts :: "(string \<times> real) list"
  warned :: "string list"
  slept :: "real list"

definition invalid_opt :: error where
  "invalid_opt = ValueError ''opt must be in {'model', 'live', 'book'}''"

definition get_field :: "controller \<Rightarrow> string \<Rightarrow> string \<Rightarrow> error + real" where
  "get_field s quad_id opt =
     (if opt = ''model'' then Inr (model_field s quad_id)
      else if opt = ''live'' then Inr (live_field s quad_id)
      else if opt = ''book'' then Inr (toFieldFromCA s quad_id (book_channel s quad_id))
      else Inl invalid_opt)"

fun get_fields :: "controller \<Rightarrow> string list \<Rightarrow> string \<Rightarrow> error + real list" where
  "get_fields s [] opt = Inr []"
| "get_fields s (quad_id # quad_ids) opt =
     (case get_field s quad_id opt of
        Inl e \<Rightarrow> Inl e
      | Inr f \<Rightarrow> (case get_fields s quad_ids opt of Inl e \<Rightarrow> Inl e | Inr fs \<Rightarrow> Inr (f # fs)))"

text \<open>
  The \<open>'model'\<close> branch of \<open>set_field\<close> calls \<open>set_field\<close> again for every
  dependent quad. The first argument is the call depth left: Python raises a
  \<open>RecursionError\<close> (a \<open>RuntimeError\<close> in Python 2) when it is used up, which is what
  happens if \<open>shared_power\<close> is cyclic.
\<close>

fun set_field_model :: "nat \<Rightarrow> controller \<Rightarrow> string \<Rightarrow> real \<Rightarrow> error + controller"
  and set_field_deps :: "nat \<Rightarrow> controller \<Rightarrow> string list \<Rightarrow> real \<Rightarrow> error + controller"
where
  "set_field_model 0 s quad_id field = Inl RecursionError"
| "set_field_model (Suc depth) s quad_id field =
     (let s1 = s\<lparr>model_field := (model_field s)(quad_id := field)\<rparr>
      in case shared_power s1 quad_id of
           None \<Rightarrow> Inr s1
         | Some deps \<Rightarrow> set_field_deps depth s1 deps field)"
| "set_field_deps depth s [] field = Inr s"
| "set_field_deps depth s (dep_quad_id # deps) field =
     (case set_field_model depth s dep_quad_id field of
        Inl e \<Rightarrow> Inl e
      | Inr s1 \<Rightarrow> set_field_deps depth s1 deps field)"

definition set_field :: "controller \<Rightarrow> string \<Rightarrow> real \<Rightarrow> string \<Rightarrow> error + controller" where
  "set_field s quad_id field opt =
     (if opt = ''model'' then set_field_model (recursion_limit s) s quad_id field
      else if opt = ''live'' then Inr (s\<lparr>live_field := (live_field s)(quad_id := field)\<rparr>)
      else if opt = ''book'' then
        Inr (s\<lparr>book_channel := (book_channel s)(quad_id := toCAFromField s quad_id field),
               book_puts := book_puts s @ [(quad_id, toCAFromField s quad_id field)]\<rparr>)
      else Inl invalid_opt)"

text \<open>The \<open>'model'\<close> loop of \<open>set_fields\<close> over \<open>zip(quad_ids, fields)\<close>.\<close>

fun set_model_each :: "controller \<Rightarrow> (string \<times> real) list \<Rightarrow> error + controller" where
  "set_model_each s [] = Inr s"
| "set_model_each s ((quad_id, field) # rest) =
     (case set_field s quad_id field ''model'' of
        Inl e \<Rightarrow> Inl e
      | Inr s1 \<Rightarrow> set_model_each s1 rest)"

text \<open>The closing loop of the \<open>'live'\<close> branch: book, then live, for every quad.\<close>

fun set_book_live_each :: "controller \<Rightarrow> (string \<times> real) list \<Rightarrow> error + controller" where
  "set_book_live_each s [] = Inr s"
| "set_book_live_each s ((quad_id, field) # rest) =
     (case set_field s quad_id field ''book'' of
        Inl e \<Rightarrow> Inl e
      | Inr s1 \<Rightarrow>
          (case set_field s1 quad_id field ''live'' of
             Inl e \<Rightarrow> Inl e
           | Inr s2 \<Rightarrow> set_book_live_each s2 rest))"

text \<open>
  One pass of the \<open>for\<close> loop inside the ramp: the flag \<open>stop\<close> and the controller
  are threaded through the quads.
\<close>

fun ramp_pass ::
  "real \<Rightarrow> (string \<times> real) list \<Rightarrow> bool \<Rightarrow> controller \<Rightarrow> error + (bool \<times> controller)" where
  "ramp_pass max_frac_change [] stop s = Inr (stop, s)"
| "ramp_pass max_frac_change ((quad_id, field) # rest) stop s =
     (case get_field s quad_id ''book'' of
        Inl e \<Rightarrow> Inl e
      | Inr book \<Rightarrow>
          (let change_needed = field - book;
               max_abs_change = max_frac_change * \<bar>book\<bar>
           in if \<bar>change_needed\<bar> > max_abs_change then
                (let new_field = (if change_needed \<ge> 0 then book + max_abs_change
                                  else book - max_abs_change)
                 in case set_field s quad_id new_field ''book'' of
                      Inl e \<Rightarrow> Inl e
                    | Inr s1 \<Rightarrow>
                        (case set_field s1 quad_id new_field ''live'' of
                           Inl e \<Rightarrow> Inl e
                         | Inr s2 \<Rightarrow> ramp_pass max_frac_change rest False s2))
              else ramp_pass max_frac_change rest stop s))"

text \<open>
  \<open>time.sleep(secs)\<close> pauses, and raises on a negative argument (\<open>ValueError\<close> in
  CPython 3; the interpreters differ in the exception they choose, not in raising).
\<close>

definition time_sleep :: "controller \<Rightarrow> real \<Rightarrow> error + controller" where
  "time_sleep s secs =
     (if secs < 0 then Inl (ValueError ''sleep length must be non-negative'')
      else Inr (s\<lparr>slept := slept s @ [secs]\<rparr>))"

text \<open>
  The \<open>while not stop and iters < max_iters\<close> loop. Each round resets \<open>stop\<close>,
  counts, runs one pass and sleeps.
\<close>

function ramp_loop ::
  "real \<Rightarrow> int \<Rightarrow> real \<Rightarrow> (string \<times> real) list \<Rightarrow> bool \<Rightarrow> int \<Rightarrow> controller
    \<Rightarrow> error + controller" where
  "ramp_loop max_frac_change max_iters sleep_time qfs stop iters s =
     (if \<not> stop \<and> iters < max_iters then
        (case ramp_pass max_frac_change qfs True s of
           Inl e \<Rightarrow> Inl e
         | Inr r \<Rightarrow>
             (case time_sleep (snd r) sleep_time of
                Inl e \<Rightarrow> Inl e
              | Inr s1 \<Rightarrow>
                  ramp_loop max_frac_change max_iters sleep_time qfs (fst r) (iters + 1) s1))
      else Inr s)"
  by pat_completeness auto
termination
  by (relation "measure (\<lambda>(mfc, max_iters, st, qfs, stop, iters, s). nat (max_iters - iters))")
    auto

definition warn :: "controller \<Rightarrow> string \<Rightarrow> controller" where
  "warn s msg = s\<lparr>warned := warned s @ [msg]\<rparr>"

text \<open>
  \<open>PhaseController.set_fields\<close> (its argument \<open>fields\<close> is \<open>new_fields\<close>
  here, the shorter name being taken by the record package). The \<open>if\<close>/\<open>elif\<close> has no \<open>else\<close>: any other
  \<open>opt\<close> falls through and the method returns.
\<close>

definition set_fields ::
  "controller \<Rightarrow> string list \<Rightarrow> real list \<Rightarrow> string \<Rightarrow> real \<Rightarrow> int \<Rightarrow> real
    \<Rightarrow> error + controller" where
  "set_fields s quad_ids new_fields opt max_frac_change max_iters sleep_time =
     (if opt = ''model'' then set_model_each s (zip quad_ids new_fields)
      else if opt = ''live'' then
        (let s1 = (if sleep_time < 0.5
                   then warn s ''sleep_time < 0.5 seconds... may trip MPS.'' else s);
             s2 = (if max_frac_change > 0.01
                   then warn s1 ''max_frac_change > 0.01... may trip MPS.'' else s1)
         in case ramp_loop max_frac_change max_iters sleep_time (zip quad_ids new_fields)
                   False 0 s2 of
              Inl e \<Rightarrow> Inl e
            | Inr s3 \<Rightarrow> set_book_live_each s3 (zip quad_ids new_fields))
      else Inr s)"

text \<open>
  A controller to run the operations on: every book channel and live field reads 100, the
  channel conversions are the identity, and no quads share a power supply.
\<close>

definition example_controller :: controller where
  "example_controller =
     \<lparr>model_field = (\<lambda>quad_id. 100), live_field = (\<lambda>quad_id. 100),
      book_channel = (\<lambda>quad_id. 100),
      toFieldFromCA = (\<lambda>quad_id x. x), toCAFromField = (\<lambda>quad_id x. x),
      shared_power = Map.empty, recursion_limit = 1000, book_puts = [],
      warned = [], slept = []\<rparr>"

section \<open>Matrices\<close>

text \<open>
  A \<open>Jama.Matrix\<close> is a list of rows. Only the operations the analysis code calls are
  given, with their mathematical meaning: \<open>get\<close>, \<open>times\<close>, \<open>transpose\<close>,
  \<open>trace\<close>, \<open>det\<close> (expansion along the first row), \<open>minus\<close> and the square of
  \<open>normF\<close>. The code only applies them to matrices of matching shapes.
\<close>

type_synonym matrix = "real list list"

definition get :: "matrix \<Rightarrow> nat \<Rightarrow> nat \<Rightarrow> real" where
  "get M i j = M ! i ! j"

definition times_m :: "matrix \<Rightarrow> matrix \<Rightarrow> matrix" where
  "times_m A B = map (\<lambda>row. map (\<lambda>col. sum_list (map2 (*) row col)) (transpose B)) A"

definition trace :: "matrix \<Rightarrow> real" where
  "trace M = sum_list (map (\<lambda>i. M ! i ! i) [0..<length M])"

definition drop_col :: "nat \<Rightarrow> real list \<Rightarrow> real list" where
  "drop_col j row = take j row @ drop (Suc j) row"

fun det :: "matrix \<Rightarrow> real" where
  "det [] = 1"
| "det (r # rs) =
     sum_list (map (\<lambda>j. (- 1) ^ j * r ! j * det (map (drop_col j) rs)) [0..<length r])"

definition minus_m :: "matrix \<Rightarrow> matrix \<Rightarrow> matrix" where
  "minus_m A B = map2 (map2 (-)) A B"

definition normF_sq :: "matrix \<Rightarrow> real" where
  "normF_sq M = sum_list (map (\<lambda>row. sum_list (map (\<lambda>x. x ^ 2) row)) M)"

text \<open>
  Modelled from the spec: \<open>utils.diagonal_matrix\<close> (module missing) "builds a diagonal
  matrix" from the list of its diagonal values.
\<close>

definition diagonal_matrix :: "real list \<Rightarrow> matrix" where
  "diagonal_matrix vals =
     map (\<lambda>i. map (\<lambda>j. if i = j then vals ! i else 0) [0..<length vals]) [0..<length vals]"

section \<open>Library functions of Python's math module\<close>

text \<open>\<open>math.sqrt\<close> raises \<open>ValueError\<close> on a negative argument.\<close>

definition py_sqrt :: "real \<Rightarrow> error + real" where
  "py_sqrt x = (if x < 0 then Inl (ValueError ''math domain error'') else Inr (sqrt x))"

text \<open>
  \<open>math.atan2(y, x)\<close>: the angle of the point \<open>(x, y)\<close> in \<open>(-pi, pi]\<close>, and 0 at
  the origin.
\<close>

definition atan2 :: "real \<Rightarrow> real \<Rightarrow> real" where
  "atan2 y x =
     (if x > 0 then arctan (y / x)
      else if x < 0 \<and> y \<ge> 0 then arctan (y / x) + pi
      else if x < 0 then arctan (y / x) - pi
      else if y > 0 then pi / 2
      else if y < 0 then - pi / 2
      else 0)"

section \<open>lib/analysis.py: covariance matrix analysis\<close>

text \<open>The covariance matrix \<open>Sigma\<close> of the source is written \<open>Sigma'\<close>.\<close>

definition str_to_int :: "string \<rightharpoonup> nat" where
  "str_to_int = map_of [(''x'', 0), (''xp'', 1), (''y'', 2), (''yp'', 3)]"

text \<open>
  \<open>rms_ellipse_dims(Sigma, dim1, dim2)\<close>. An unknown dimension name is a
  \<open>KeyError\<close> of the dictionary. The square roots are of absolute values and cannot
  fail.
\<close>

definition rms_ellipse_dims :: "matrix \<Rightarrow> string \<Rightarrow> string \<Rightarrow> error + real \<times> real \<times> real" where
  "rms_ellipse_dims Sigma' dim1 dim2 =
     (case str_to_int dim1 of
        None \<Rightarrow> Inl (KeyError dim1)
      | Some i \<Rightarrow>
          (case str_to_int dim2 of
             None \<Rightarrow> Inl (KeyError dim2)
           | Some j \<Rightarrow>
               (let sig_ii = get Sigma' i i; sig_jj = get Sigma' j j; sig_ij = get Sigma' i j;
                    phi = - 0.5 * atan2 (2 * sig_ij) (sig_ii - sig_jj);
                    sn = sin phi; cs = cos phi;
                    sn2 = sn ^ 2; cs2 = cs ^ 2;
                    c1 = sqrt \<bar>sig_ii * cs2 + sig_jj * sn2 - 2 * sig_ij * sn * cs\<bar>;
                    c2 = sqrt \<bar>sig_ii * sn2 + sig_jj * cs2 + 2 * sig_ij * sn * cs\<bar>
                in Inr (phi, c1, c2))))"

text \<open>
  The function of the same name in \<open>target_image/target_image_analysis.py\<close>, on the
  three moments; it returns \<open>(c1, c2, angle)\<close>.
\<close>

definition rms_ellipse_dims_image :: "real \<Rightarrow> real \<Rightarrow> real \<Rightarrow> real \<times> real \<times> real" where
  "rms_ellipse_dims_image sig_xx sig_yy sig_xy =
     (let angle = - 0.5 * atan2 (2 * sig_xy) (sig_xx - sig_yy);
          sn = sin angle; cs = cos angle;
          c1 = sqrt \<bar>sig_xx * cs ^ 2 + sig_yy * sn ^ 2 - 2 * sig_xy * sn * cs\<bar>;
          c2 = sqrt \<bar>sig_xx * sn ^ 2 + sig_yy * cs ^ 2 + 2 * sig_xy * sn * cs\<bar>
      in (c1, c2, angle))"

definition symplectic_U :: matrix where
  "symplectic_U = [[0, 1, 0, 0], [- 1, 0, 0, 0], [0, 0, 0, 1], [0, 0, - 1, 0]]"

text \<open>
  \<open>intrinsic_emittances\<close>: each \<open>sqrt\<close> can raise. The radicand
  \<open>trSU2\<^sup>2 - 16 detS\<close> is taken here in exact arithmetic; in the program both terms
  are rounded first, so where the exact radicand is zero (as on multiples of the
  identity) the computed one may be slightly negative or positive. Statements below use
  this function only at matrices with entries 0, 1 and -1, where the program's arithmetic
  is exact.
\<close>

definition intrinsic_emittances :: "matrix \<Rightarrow> error + real \<times> real" where
  "intrinsic_emittances Sigma' =
     (let U = symplectic_U;
          SU = times_m Sigma' U;
          SU2 = times_m SU SU;
          trSU2 = trace SU2;
          detS = det Sigma'
      in case py_sqrt (trSU2 ^ 2 - 16 * detS) of
           Inl e \<Rightarrow> Inl e
         | Inr r \<Rightarrow>
             (case py_sqrt (- trSU2 + r) of
                Inl e \<Rightarrow> Inl e
              | Inr r1 \<Rightarrow>
                  (case py_sqrt (- trSU2 - r) of
                     Inl e \<Rightarrow> Inl e
                   | Inr r2 \<Rightarrow> Inr (0.5 * r1, 0.5 * r2))))"

definition apparent_emittances :: "matrix \<Rightarrow> error + real \<times> real" where
  "apparent_emittances Sigma' =
     (case py_sqrt (get Sigma' 0 0 * get Sigma' 1 1 - get Sigma' 0 1 ^ 2) of
        Inl e \<Rightarrow> Inl e
      | Inr eps_x \<Rightarrow>
          (case py_sqrt (get Sigma' 2 2 * get Sigma' 3 3 - get Sigma' 2 3 ^ 2) of
             Inl e \<Rightarrow> Inl e
           | Inr eps_y \<Rightarrow> Inr (eps_x, eps_y)))"

definition emittances :: "matrix \<Rightarrow> error + real \<times> real \<times> real \<times> real" where
  "emittances Sigma' =
     (case apparent_emittances Sigma' of
        Inl e \<Rightarrow> Inl e
      | Inr (eps_x, eps_y) \<Rightarrow>
          (case intrinsic_emittances Sigma' of
             Inl e \<Rightarrow> Inl e
           | Inr (eps_1, eps_2) \<Rightarrow> Inr (eps_x, eps_y, eps_1, eps_2)))"

text \<open>
  \<open>twiss2D\<close>: the divisions are in the order of the source, so the first zero
  emittance met raises \<open>ZeroDivisionError\<close>. The result is
  \<open>(alpha_x, alpha_y, beta_x, beta_y)\<close>.
\<close>

definition twiss2D :: "matrix \<Rightarrow> error + real \<times> real \<times> real \<times> real" where
  "twiss2D Sigma' =
     (case apparent_emittances Sigma' of
        Inl e \<Rightarrow> Inl e
      | Inr (eps_x, eps_y) \<Rightarrow>
          if eps_x = 0 then Inl ZeroDivisionError
          else if eps_y = 0 then Inl ZeroDivisionError
          else
            (let beta_x = get Sigma' 0 0 / eps_x;
                 beta_y = get Sigma' 2 2 / eps_y;
                 alpha_x = - get Sigma' 0 1 / eps_x;
                 alpha_y = - get Sigma' 2 3 / eps_y
             in Inr (alpha_x, alpha_y, beta_x, beta_y)))"

text \<open>
  \<open>Sigma.eig().getRealEigenvalues()\<close> is computed by the matrix library; the
  eigenvalue routine is the argument \<open>eig\<close> of every function that needs it.
\<close>

definition is_positive_definite :: "(matrix \<Rightarrow> real list) \<Rightarrow> matrix \<Rightarrow> bool" where
  "is_positive_definite eig Sigma' = list_all (\<lambda>e. e \<ge> 0) (eig Sigma')"

definition is_valid_cov :: "(matrix \<Rightarrow> real list) \<Rightarrow> matrix \<Rightarrow> error + bool" where
  "is_valid_cov eig Sigma' =
     (if \<not> is_positive_definite eig Sigma' then Inr False
      else if det Sigma' < 0 then Inr False
      else
        (case emittances Sigma' of
           Inl e \<Rightarrow> Inl e
         | Inr (eps_x, eps_y, eps_1, eps_2) \<Rightarrow>
             if eps_x * eps_y < eps_1 * eps_2 then Inr False else Inr True))"

text \<open>
  What the documentation of the matrix library promises of the eigenvalues \<open>es\<close> of a
  symmetric 4x4 matrix \<open>A\<close>: there is an eigenvector matrix \<open>V\<close> with orthonormal
  columns, \<open>A V = V D\<close> and \<open>A = V D V\<^sup>T\<close>, where \<open>D\<close> is the diagonal matrix of
  \<open>es\<close>.
\<close>

definition eig_contract :: "matrix \<Rightarrow> real list \<Rightarrow> bool" where
  "eig_contract A es \<longleftrightarrow>
     length es = 4 \<and>
     (\<exists>V :: nat \<Rightarrow> nat \<Rightarrow> real.
        (\<forall>m<4. (\<Sum>i<4. V i m * V i m) = 1) \<and>
        (\<forall>i<4. \<forall>m<4. (\<Sum>j<4. get A i j * V j m) = V i m * es ! m) \<and>
        (\<forall>i<4. \<forall>j<4. get A i j = (\<Sum>k<4. V i k * es ! k * V j k)))"

definition symmetric4 :: "matrix \<Rightarrow> bool" where
  "symmetric4 A \<longleftrightarrow>
     length A = 4 \<and> list_all (\<lambda>row. length row = 4) A \<and>
     list_all (\<lambda>i. list_all (\<lambda>j. get A i j = get A j i) [0..<4]) [0..<4]"

definition scaled_identity :: "real \<Rightarrow> matrix" where
  "scaled_identity c = [[c, 0, 0, 0], [0, c, 0, 0], [0, 0, c, 0], [0, 0, 0, c]]"

text \<open>
  The eigenvalues of a diagonal matrix are its diagonal entries: an eigenvalue routine to
  run the functions on diagonal matrices.
\<close>

definition diag_eig :: "matrix \<Rightarrow> real list" where
  "diag_eig A = map (\<lambda>i. get A i i) [0..<length A]"

section \<open>lib/analysis.py: covariance matrix reconstruction\<close>

text \<open>
  \<open>to_mat\<close> unpacks a vector of exactly ten moments; any other length makes the
  tuple assignment raise \<open>ValueError\<close>.
\<close>

definition to_mat :: "real list \<Rightarrow> error + matrix" where
  "to_mat moments =
     (case moments of
        [sig_11, sig_22, sig_12, sig_33, sig_44, sig_34, sig_13, sig_23, sig_14, sig_24] \<Rightarrow>
          Inr [[sig_11, sig_12, sig_13, sig_14],
               [sig_12, sig_22, sig_23, sig_24],
               [sig_13, sig_23, sig_33, sig_34],
               [sig_14, sig_24, sig_34, sig_44]]
      | _ \<Rightarrow> Inl (ValueError ''wrong number of values to unpack''))"

text \<open>
  The first loop of \<open>reconstruct\<close>: three rows of \<open>A\<close> and three entries of \<open>b\<close>
  for every pair of \<open>zip(transfer_mats, moments)\<close>.
\<close>

fun form_Ab :: "(matrix \<times> real \<times> real \<times> real) list \<Rightarrow> matrix \<times> real list" where
  "form_Ab [] = ([], [])"
| "form_Ab ((M, sig_xx, sig_yy, sig_xy) # rest) =
     (let (A, b) = form_Ab rest
      in ([get M 0 0 ^ 2, get M 0 1 ^ 2, 2 * get M 0 0 * get M 0 1, 0, 0, 0, 0, 0, 0, 0]
          # [0, 0, 0, get M 2 2 ^ 2, get M 2 3 ^ 2, 2 * get M 2 2 * get M 2 3, 0, 0, 0, 0]
          # [0, 0, 0, 0, 0, 0, get M 0 0 * get M 2 2, get M 0 1 * get M 2 2,
             get M 0 0 * get M 2 3, get M 0 1 * get M 2 3]
          # A,
          sig_xx # sig_yy # sig_xy # b))"

text \<open>The second loop: the cross-plane rows \<open>Axy\<close> and the column \<open>bxy\<close>.\<close>

fun form_Axy_bxy :: "(matrix \<times> real \<times> real \<times> real) list \<Rightarrow> matrix \<times> matrix" where
  "form_Axy_bxy [] = ([], [])"
| "form_Axy_bxy ((M, sig_xx, sig_yy, sig_xy) # rest) =
     (let (Axy, bxy) = form_Axy_bxy rest
      in ([get M 0 0 * get M 2 2, get M 0 1 * get M 2 2,
           get M 0 0 * get M 2 3, get M 0 1 * get M 2 3] # Axy,
          [sig_xy] # bxy))"

text \<open>
  The function \<open>is_positive_definite\<close> nested in \<open>reconstruct\<close>, which hides the one
  of the module there: \<open>any([eigval < 0 ...])\<close>.
\<close>

definition reconstruct_is_positive_definite :: "(matrix \<Rightarrow> real list) \<Rightarrow> matrix \<Rightarrow> bool" where
  "reconstruct_is_positive_definite eig Sigma' = list_ex (\<lambda>eigval. eigval < 0) (eig Sigma')"

definition is_physical_cov :: "(matrix \<Rightarrow> real list) \<Rightarrow> matrix \<Rightarrow> error + bool" where
  "is_physical_cov eig Sigma' =
     (if reconstruct_is_positive_definite eig Sigma' \<and> det Sigma' \<ge> 0 then
        (case emittances Sigma' of
           Inl e \<Rightarrow> Inl e
         | Inr (eps_x, eps_y, eps_1, eps_2) \<Rightarrow>
             if eps_x * eps_y \<ge> eps_1 * eps_2 then Inr True else Inr False)
      else Inr False)"

text \<open>
  The \<open>if a == 0\<close> block of \<open>get_cov\<close>, which binds \<open>d\<close> or raises.
\<close>

definition coupling_d :: "real \<Rightarrow> real \<Rightarrow> real \<Rightarrow> error + real" where
  "coupling_d a b c =
     (if a = 0 then
        (if b = 0 \<or> c = 0 then Inr 0
         else Inl (ValueError ''a is zero but b * c is not zero.''))
      else Inr (b * c / a))"

text \<open>
  \<open>get_cov\<close>, nested in \<open>reconstruct\<close>. The entries of \<open>V\<close> are computed first, in
  the order of the \<open>V.set\<close> calls: \<open>sqrt\<close> of a negative beta raises \<open>ValueError\<close>,
  a division by \<open>sqrt(0)\<close> raises \<open>ZeroDivisionError\<close>. Only then is \<open>d\<close> derived.
\<close>

definition get_cov ::
  "real \<Rightarrow> real \<Rightarrow> real \<Rightarrow> real \<Rightarrow> real \<Rightarrow> real \<Rightarrow> real \<Rightarrow> real \<Rightarrow> real \<Rightarrow> error + matrix" where
  "get_cov eps_1 eps_2 alpha_x alpha_y beta_x beta_y a b c =
     (let E = diagonal_matrix [eps_1, eps_1, eps_2, eps_2]
      in case py_sqrt beta_x of
           Inl e \<Rightarrow> Inl e
         | Inr sbx \<Rightarrow>
             if sbx = 0 then Inl ZeroDivisionError
             else
               (case py_sqrt beta_y of
                  Inl e \<Rightarrow> Inl e
                | Inr sby \<Rightarrow>
                    if sby = 0 then Inl ZeroDivisionError
                    else
                      (let V = [[sbx, 0, 0, 0],
                                [- alpha_x / sbx, 1 / sbx, 0, 0],
                                [0, 0, sby, 0],
                                [0, 0, - alpha_y / sby, 1 / sby]]
                       in case coupling_d a b c of
                            Inl e \<Rightarrow> Inl e
                          | Inr d \<Rightarrow>
                              (let C = [[1, 0, a, b], [0, 1, c, d], [- d, b, 1, 0], [c, - a, 0, 1]];
                                   VC = times_m V C
                               in Inr (times_m VC (times_m E (transpose VC)))))))"

text \<open>
  \<open>MyScorer.score\<close>: the cost of a trial \<open>[eps_1, eps_2, a, b, c]\<close>, given the
  cross-plane system, the least-squares \<open>Sigma\<close> and its Twiss parameters.
\<close>

definition score ::
  "matrix \<Rightarrow> matrix \<Rightarrow> matrix \<Rightarrow> real \<times> real \<times> real \<times> real \<Rightarrow> real list \<Rightarrow> error + real" where
  "score Axy bxy Sigma' tw trial =
     (case (tw, trial) of
        ((alpha_x, alpha_y, beta_x, beta_y), [eps_1, eps_2, a, b, c]) \<Rightarrow>
          (case get_cov eps_1 eps_2 alpha_x alpha_y beta_x beta_y a b c of
             Inl e \<Rightarrow> Inl e
           | Inr S \<Rightarrow>
               (let vec = [[get S 0 2], [get S 1 2], [get S 0 3], [get S 1 3]];
                    residuals = minus_m (times_m Axy vec) bxy;
                    cost = normF_sq residuals;
                    f = 1
                in Inr (cost
                     + f * (get S 0 0 - get Sigma' 0 0) ^ 2
                     + f * (get S 0 1 - get Sigma' 0 1) ^ 2
                     + f * (get S 1 1 - get Sigma' 1 1) ^ 2
                     + f * (get S 2 2 - get Sigma' 2 2) ^ 2
                     + f * (get S 2 3 - get Sigma' 2 3) ^ 2
                     + f * (get S 3 3 - get Sigma' 3 3) ^ 2)))
      | _ \<Rightarrow> Inl (ValueError ''wrong number of values to unpack''))"

text \<open>
  The three collaborators of \<open>reconstruct\<close> that live outside the sources at hand are
  arguments:
  \<^item> \<open>lsq_linear A b\<close>, the least-squares adapter (it may fail);
  \<^item> \<open>eig\<close>, the eigenvalue routine of the matrix library;
  \<^item> \<open>minimize scorer guess bounds\<close>, the optimizer adapter, which returns the best
    trial found (the variable names, iteration budget and tolerance are constants of the
    call and left out);
  and so are the three draws of \<open>random.random()\<close>. The result carries the lines
  printed, in order, and the matrix returned.
\<close>

type_synonym lsq_solver = "matrix \<Rightarrow> real list \<Rightarrow> error + real list"
type_synonym minimizer =
  "(real list \<Rightarrow> error + real) \<Rightarrow> real list \<Rightarrow> real list \<times> real \<Rightarrow> error + real list"

text \<open>The part of \<open>reconstruct\<close> after the physicality gate has failed.\<close>

definition refit ::
  "minimizer \<Rightarrow> real \<times> real \<times> real \<Rightarrow> (matrix \<times> real \<times> real \<times> real) list \<Rightarrow> matrix
    \<Rightarrow> error + string list \<times> matrix" where
  "refit minimize rnd meas Sigma' =
     (let out = [''Covariance matrix is unphysical. Running solver.''];
          (Axy, bxy) = form_Axy_bxy meas
      in case apparent_emittances Sigma' of
           Inl e \<Rightarrow> Inl e
         | Inr (eps_x, eps_y) \<Rightarrow>
             (case twiss2D Sigma' of
                Inl e \<Rightarrow> Inl e
              | Inr (alpha_x, alpha_y, beta_x, beta_y) \<Rightarrow>
                  (let inf = 10 ^ 20;
                       lb = [0, 0, - inf, - inf, - inf];
                       ub = inf;
                       guess = (case rnd of (r1, r2, r3) \<Rightarrow>
                                  [1.0 * eps_x, 1.0 * eps_y, 0.1 * r1, 0.1 * r2, - 0.1 * r3])
                   in case minimize (score Axy bxy Sigma' (alpha_x, alpha_y, beta_x, beta_y))
                             guess (lb, ub) of
                        Inl e \<Rightarrow> Inl e
                      | Inr [eps_1, eps_2, a, b, c] \<Rightarrow>
                          (case get_cov eps_1 eps_2 alpha_x alpha_y beta_x beta_y a b c of
                             Inl e \<Rightarrow> Inl e
                           | Inr S \<Rightarrow> Inr (out, S))
                      | Inr _ \<Rightarrow> Inl (ValueError ''wrong number of values to unpack''))))"

definition reconstruct ::
  "lsq_solver \<Rightarrow> (matrix \<Rightarrow> real list) \<Rightarrow> minimizer \<Rightarrow> real \<times> real \<times> real
    \<Rightarrow> matrix list \<Rightarrow> (real \<times> real \<times> real) list \<Rightarrow> bool \<Rightarrow> error + string list \<times> matrix" where
  "reconstruct lsq_linear eig minimize rnd transfer_mats moments constr =
     (let (A, b) = form_Ab (zip transfer_mats moments)
      in case lsq_linear A b of
           Inl e \<Rightarrow> Inl e
         | Inr moment_vec \<Rightarrow>
             (case to_mat moment_vec of
                Inl e \<Rightarrow> Inl e
              | Inr Sigma' \<Rightarrow>
                  if \<not> constr then Inr ([], Sigma')
                  else
                    (case is_physical_cov eig Sigma' of
                       Inl e \<Rightarrow> Inl e
                     | Inr True \<Rightarrow> Inr ([''Covariance matrix is physical.''], Sigma')
                     | Inr False \<Rightarrow> refit minimize rnd (zip transfer_mats moments) Sigma')))"

text \<open>
  A measurement to run \<open>reconstruct\<close> on: four transfer matrices (the identity, a
  quarter turn in both planes, a drift in both planes, and a quarter turn in \<open>y\<close>
  only) and the moments that a beam with the identity as covariance matrix shows
  behind them. The system \<open>A x = b\<close> they give has rank 10, and the moment vector of
  the identity solves it exactly.
\<close>

definition example_transfer_mats :: "matrix list" where
  "example_transfer_mats =
     [[[1, 0, 0, 0], [0, 1, 0, 0], [0, 0, 1, 0], [0, 0, 0, 1]],
      [[0, 1, 0, 0], [- 1, 0, 0, 0], [0, 0, 0, 1], [0, 0, - 1, 0]],
      [[1, 1, 0, 0], [0, 1, 0, 0], [0, 0, 1, 1], [0, 0, 0, 1]],
      [[1, 0, 0, 0], [0, 1, 0, 0], [0, 0, 0, 1], [0, 0, - 1, 0]]]"

definition example_moments :: "(real \<times> real \<times> real) list" where
  "example_moments = [(1, 1, 0), (1, 1, 0), (2, 2, 0), (1, 1, 0)]"

definition identity_moments :: "real list" where
  "identity_moments = [1, 1, 0, 1, 1, 0, 0, 0, 0, 0]"

section \<open>lib/analysis.py: the class BeamStats\<close>

record BeamStats =
  stat_Sigma :: matrix
  stat_eps_x :: real
  stat_eps_y :: real
  stat_eps_1 :: real
  stat_eps_2 :: real
  stat_alpha_x :: real
  stat_alpha_y :: real
  stat_beta_x :: real
  stat_beta_y :: real
  stat_coupling_coeff :: real

text \<open>
  The values a call of a \<open>BeamStats\<close> method can be given: an instance, a string, a
  number, or anything else.
\<close>

datatype pyval = Instance BeamStats | Str string | Num real | Other

text \<open>
  \<open>rms_ellipse_dims\<close> of the module called with values of any kind: a key that is
  not one of the four strings is not in the dictionary \<open>str_to_int\<close>, and the first
  failing lookup raises \<open>KeyError\<close>.
\<close>

definition rms_ellipse_dims_dyn :: "matrix \<Rightarrow> pyval \<Rightarrow> pyval \<Rightarrow> error + real \<times> real \<times> real" where
  "rms_ellipse_dims_dyn Sigma' dim1 dim2 =
     (case dim1 of
        Str d1 \<Rightarrow>
          (case dim2 of
             Str d2 \<Rightarrow> rms_ellipse_dims Sigma' d1 d2
           | _ \<Rightarrow> (case str_to_int d1 of
                     None \<Rightarrow> Inl (KeyError d1)
                   | Some i \<Rightarrow> Inl (KeyError ''dim2'')))
      | _ \<Rightarrow> Inl (KeyError ''dim1''))"

text \<open>
  The names bound at the top level of \<open>lib/analysis.py\<close>, by its imports,
  assignments, functions and classes: the global scope in which the body of every
  function of the module looks up a name that is not local. None of them is bound to a
  \<open>BeamStats\<close> instance.
\<close>

definition analysis_globals :: "(string \<times> pyval) list" where
  "analysis_globals = map (\<lambda>name. (name, Other))
     [''print_function'', ''sys'', ''math'', ''random'', ''sqrt'', ''sin'', ''cos'', ''pprint'',
      ''datetime'', ''Matrix'', ''Scorer'', ''PVLoggerDataSource'', ''Scenario'',
      ''Accelerator'', ''AcceleratorSeq'', ''XMLDataManager'', ''lsq_linear'', ''utils'',
      ''minimize'', ''get_trial_vals'', ''DIAG_WIRE_ANGLE'', ''rms_ellipse_dims'',
      ''intrinsic_emittances'', ''apparent_emittances'', ''emittances'', ''twiss2D'',
      ''is_positive_definite'', ''is_valid_cov'', ''V_matrix_uncoupled'', ''BeamStats'',
      ''to_mat'', ''to_vec'', ''get_sig_xy'', ''reconstruct'', ''is_harp_file'', ''Stat'',
      ''Signal'', ''Profile'', ''Measurement'', ''get_scan_info'']"

text \<open>
  The function \<open>rms_ellipse_dims\<close> in the body of the class. Its parameters are
  \<open>dim1, dim2\<close>, so it accepts exactly two positional arguments (\<open>TypeError\<close>
  otherwise). Its body evaluates the name \<open>self\<close>, which is not a parameter: the lookup
  goes to the globals of the module and raises \<open>NameError\<close> when the name is not bound
  there; a value that is not an instance has no attribute \<open>Sigma\<close>.
\<close>

definition BeamStats_rms_ellipse_dims :: "pyval list \<Rightarrow> error + real \<times> real \<times> real" where
  "BeamStats_rms_ellipse_dims args =
     (case args of
        [dim1, dim2] \<Rightarrow>
          (case map_of analysis_globals ''self'' of
             None \<Rightarrow> Inl (NameError ''self'')
           | Some (Instance self) \<Rightarrow> rms_ellipse_dims_dyn (stat_Sigma self) dim1 dim2
           | Some _ \<Rightarrow> Inl (AttributeError ''Sigma''))
      | _ \<Rightarrow> Inl TypeError)"

text \<open>
  Calling a method on an instance, \<open>stats.rms_ellipse_dims(...)\<close>: Python passes the
  instance as the first positional argument, before the arguments of the call.
\<close>

definition call_method :: "(pyval list \<Rightarrow> 'a) \<Rightarrow> BeamStats \<Rightarrow> pyval list \<Rightarrow> 'a" where
  "call_method f inst args = f (Instance inst # args)"

section \<open>Facts about angle wrapping\<close>

lemma put_angle_in_range_bounds:
  "0 \<le> put_angle_in_range a \<and> put_angle_in_range a < 2 * pi"
proof -
  have p: "0 < 2 * pi" by simp
  define t where "t = a / (2 * pi)"
  have a: "a = 2 * pi * t" by (simp add: t_def)
  have "of_int \<lfloor>t\<rfloor> \<le> t" "t < of_int \<lfloor>t\<rfloor> + 1" by linarith+
  then have "0 \<le> t - of_int \<lfloor>t\<rfloor>" "t - of_int \<lfloor>t\<rfloor> < 1" by linarith+
  then have "0 \<le> 2 * pi * (t - of_int \<lfloor>t\<rfloor>)" "2 * pi * (t - of_int \<lfloor>t\<rfloor>) < 2 * pi * 1"
    using p by (simp_all del: mult_less_cancel_left_pos)
  moreover have "put_angle_in_range a = 2 * pi * (t - of_int \<lfloor>t\<rfloor>)"
    unfolding put_angle_in_range_def t_def [symmetric] by (simp add: a algebra_simps)
  ultimately show ?thesis by simp
qed

lemma put_angle_in_range_shift:
  "put_angle_in_range (a + 2 * pi * of_int m) = put_angle_in_range a"
proof -
  have "(a + 2 * pi * of_int m) / (2 * pi) = a / (2 * pi) + of_int m"
    by (simp add: field_simps)
  then show ?thesis
    by (simp add: put_angle_in_range_def algebra_simps)
qed

lemma put_angle_in_range_id:
  assumes "0 \<le> a" "a < 2 * pi"
  shows "put_angle_in_range a = a"
proof -
  have "0 \<le> a / (2 * pi)" "a / (2 * pi) < 1" using assms by simp_all
  then have "\<lfloor>a / (2 * pi)\<rfloor> = 0" by linarith
  then show ?thesis by (simp add: put_angle_in_range_def)
qed

lemma put_angle_in_range_add:
  "put_angle_in_range (put_angle_in_range a + s) = put_angle_in_range (a + s)"
proof -
  have "put_angle_in_range a + s = (a + s) + 2 * pi * of_int (- \<lfloor>a / (2 * pi)\<rfloor>)"
    by (simp add: put_angle_in_range_def)
  then show ?thesis
    by (simp only: put_angle_in_range_shift)
qed

section \<open>Facts about the stepping loop\<close>

lemma length_phase_steps: "length (phase_steps k step ps) = length ps + k"
  by (induction k arbitrary: ps) auto

lemma phase_steps_prefix:
  "i < length ps \<Longrightarrow> phase_steps k step ps ! i = ps ! i"
  by (induction k arbitrary: ps) (auto simp: nth_append)

lemma phase_steps_next:
  assumes "ps \<noteq> []" "length ps \<le> Suc i" "Suc i < length ps + k"
  shows "phase_steps k step ps ! Suc i = put_angle_in_range (phase_steps k step ps ! i + step)"
  using assms
proof (induction k arbitrary: ps)
  case 0
  then show ?case by simp
next
  case (Suc k)
  let ?qs = "ps @ [put_angle_in_range (last ps + step)]"
  show ?case
  proof (cases "Suc i = length ps")
    case True
    have a: "phase_steps k step ?qs ! Suc i = put_angle_in_range (last ps + step)"
      using True by (simp add: phase_steps_prefix nth_append)
    have "i = length ps - 1" using True by simp
    then have b: "phase_steps k step ?qs ! i = last ps"
      using True Suc.prems(1) by (simp add: phase_steps_prefix nth_append last_conv_nth)
    show ?thesis by (simp add: a b)
  next
    case False
    then have "length ?qs \<le> Suc i" "Suc i < length ?qs + k" "?qs \<noteq> []"
      using Suc.prems by auto
    from Suc.IH [OF this(3) this(1) this(2)] show ?thesis by simp
  qed
qed

lemma phase_steps_closed_form:
  assumes "i < Suc k"
  shows "phase_steps k step [put_angle_in_range a] ! i = put_angle_in_range (a + of_nat i * step)"
  using assms
proof (induction i)
  case 0
  have "put_angle_in_range (put_angle_in_range a + 0) = put_angle_in_range (a + 0)"
    by (rule put_angle_in_range_add)
  then show ?case by (simp add: phase_steps_prefix)
next
  case (Suc i)
  have "phase_steps k step [put_angle_in_range a] ! Suc i
      = put_angle_in_range (phase_steps k step [put_angle_in_range a] ! i + step)"
    using Suc.prems by (intro phase_steps_next) auto
  also have "\<dots> = put_angle_in_range (put_angle_in_range (a + of_nat i * step) + step)"
    using Suc by simp
  also have "\<dots> = put_angle_in_range (a + of_nat i * step + step)"
    by (rule put_angle_in_range_add)
  finally show ?case by (simp add: algebra_simps)
qed

lemma short_diff_min:
  "short_diff mu_min mu_max = min \<bar>mu_max - mu_min\<bar> (2 * pi - \<bar>mu_max - mu_min\<bar>)"
  by (auto simp: short_diff_def Let_def min_def)

lemma put_angle_in_range_eqI:
  assumes "0 \<le> r" "r < 2 * pi" "a = r + 2 * pi * of_int m"
  shows "put_angle_in_range a = r"
  using assms by (simp add: put_angle_in_range_shift put_angle_in_range_id)

lemma lin_phase_range_Inr:
  assumes "2 \<le> n"
  shows "lin_phase_range mu_min mu_max n True =
           Inr (phase_steps (nat (n - 1)) (short_diff mu_min mu_max / of_int (n - 1)) [mu_min])"
  using assms by (simp add: lin_phase_range_def Let_def)

lemma short_diff_window:
  assumes c: "0 \<le> c" "c \<le> pi"
  shows "short_diff (put_angle_in_range (m - c / 2)) (put_angle_in_range (m + c / 2)) = c"
proof -
  define A where "A = put_angle_in_range (m - c / 2)"
  define B where "B = put_angle_in_range (m + c / 2)"
  define j where "j = \<lfloor>(m + c / 2) / (2 * pi)\<rfloor> - \<lfloor>(m - c / 2) / (2 * pi)\<rfloor>"
  define P where "P = 2 * pi * real_of_int j"
  have "P = 2 * pi * of_int \<lfloor>(m + c / 2) / (2 * pi)\<rfloor> - 2 * pi * of_int \<lfloor>(m - c / 2) / (2 * pi)\<rfloor>"
    unfolding P_def j_def by (simp only: of_int_diff right_diff_distrib)
  then have diff: "B - A = c - P"
    unfolding A_def B_def put_angle_in_range_def by linarith
  have bA: "0 \<le> A" "A < 2 * pi" and bB: "0 \<le> B" "B < 2 * pi"
    unfolding A_def B_def using put_angle_in_range_bounds by blast+
  have p: "0 < pi" by (rule pi_gt_zero)
  have "P < 2 * pi * 2" "2 * pi * (- 1) < P"
    using bA bB diff c p by linarith+
  then have "2 * pi * real_of_int j < 2 * pi * 2" "2 * pi * (- 1) < 2 * pi * real_of_int j"
    unfolding P_def by blast+
  moreover have "0 \<le> 2 * pi" using p by linarith
  ultimately have "real_of_int j < 2" "- 1 < real_of_int j"
    by (blast intro: mult_left_less_imp_less)+
  then have "j = 0 \<or> j = 1" by linarith
  then show ?thesis
  proof
    assume "j = 0"
    then have "P = 0" unfolding P_def by simp
    then have "B - A = c" using diff by linarith
    then have "\<bar>B - A\<bar> = c" using c by linarith
    then show ?thesis
      unfolding A_def [symmetric] B_def [symmetric] short_diff_def Let_def using c by simp
  next
    assume "j = 1"
    then have "P = 2 * pi" unfolding P_def by simp
    then have "B - A = c - 2 * pi" using diff by linarith
    then have "\<bar>B - A\<bar> = 2 * pi - c" using c p by linarith
    then show ?thesis
      unfolding A_def [symmetric] B_def [symmetric] short_diff_def Let_def using c p by simp
  qed
qed

lemma lin_phase_range_wrapped_nth:
  assumes "2 \<le> n" "lin_phase_range (put_angle_in_range a) mu_max n True = Inr ps" "k < nat n"
  shows "ps ! k = put_angle_in_range
           (a + of_nat k * (short_diff (put_angle_in_range a) mu_max / of_int (n - 1)))"
proof -
  have "ps = phase_steps (nat (n - 1))
              (short_diff (put_angle_in_range a) mu_max / of_int (n - 1)) [put_angle_in_range a]"
    using assms(1,2) by (simp add: lin_phase_range_Inr)
  moreover have "k < Suc (nat (n - 1))" using assms(1,3) by linarith
  ultimately show ?thesis by (simp only: phase_steps_closed_form)
qed

lemma lin_phase_range_length:
  assumes "2 \<le> n" "lin_phase_range mu_min mu_max n True = Inr ps"
  shows "length ps = nat n"
  using assms by (auto simp: lin_phase_range_Inr length_phase_steps)

section \<open>Two scans evaluated\<close>

lemma scan_quarter_turn_x:
  "lin_phase_range (7 * pi / 4) (pi / 4) 6 True
     = Inr [7 * pi / 4, 37 * pi / 20, 39 * pi / 20, pi / 20, 3 * pi / 20, pi / 4]"
proof -
  have d: "short_diff (7 * pi / 4) (pi / 4) = pi / 2"
    by (simp add: short_diff_def Let_def abs_if)
  have w: "put_angle_in_range (41 * pi / 20) = pi / 20"
    by (rule put_angle_in_range_eqI [where m = 1]) simp_all
  show ?thesis
    by (simp add: lin_phase_range_def Let_def eval_nat_numeral d w put_angle_in_range_id)
qed

lemma scan_quarter_turn_y:
  "lin_phase_range (3 * pi / 4) (5 * pi / 4) 6 True
     = Inr [3 * pi / 4, 17 * pi / 20, 19 * pi / 20, 21 * pi / 20, 23 * pi / 20, 5 * pi / 4]"
proof -
  have d: "short_diff (3 * pi / 4) (5 * pi / 4) = pi / 2"
    by (simp add: short_diff_def Let_def abs_if)
  show ?thesis
    by (simp add: lin_phase_range_def Let_def eval_nat_numeral d put_angle_in_range_id)
qed

lemma scan_three_quarter_turn:
  "lin_phase_range (pi / 4) (7 * pi / 4) 6 True
     = Inr [pi / 4, 7 * pi / 20, 9 * pi / 20, 11 * pi / 20, 13 * pi / 20, 3 * pi / 4]"
proof -
  have d: "short_diff (pi / 4) (7 * pi / 4) = pi / 2"
    by (simp add: short_diff_def Let_def abs_if)
  show ?thesis
    by (simp add: lin_phase_range_def Let_def eval_nat_numeral d put_angle_in_range_id)
qed

section \<open>Facts about the field operations\<close>














section \<open>Facts about the ellipse of an uncorrelated plane\<close>

lemma atan2_zero: "atan2 0 x = (if x < 0 then pi else 0)"
  by (simp add: atan2_def)

lemma rms_ellipse_dims_uncorrelated:
  assumes "str_to_int dim1 = Some i" "str_to_int dim2 = Some j" "get Sigma' i j = 0"
    "0 \<le> get Sigma' i i" "0 \<le> get Sigma' j j"
  shows "rms_ellipse_dims Sigma' dim1 dim2 =
           (if get Sigma' i i < get Sigma' j j
            then Inr (- pi / 2, sqrt (get Sigma' j j), sqrt (get Sigma' i i))
            else Inr (0, sqrt (get Sigma' i i), sqrt (get Sigma' j j)))"
  using assms by (simp add: rms_ellipse_dims_def Let_def atan2_zero)

lemma rms_ellipse_dims_image_uncorrelated:
  assumes "0 \<le> sig_xx" "0 \<le> sig_yy"
  shows "rms_ellipse_dims_image sig_xx sig_yy 0 =
           (if sig_xx < sig_yy then (sqrt sig_yy, sqrt sig_xx, - pi / 2)
            else (sqrt sig_xx, sqrt sig_yy, 0))"
  using assms by (simp add: rms_ellipse_dims_image_def Let_def atan2_zero)

lemma sqrt4: "sqrt 4 = 2"
  using real_sqrt_abs [of 2] by simp

section \<open>Facts about the coupled covariance and the module scope\<close>


lemma no_global_self: "map_of analysis_globals ''self'' = None"
  by (simp add: analysis_globals_def)

section \<open>Facts about multiples of the identity and about eigenvalues\<close>

text \<open>
  The three lemmas on \<open>c\<close> times the identity are facts of exact arithmetic: there the
  radicand \<open>trSU2\<^sup>2 - 16 detS\<close> of \<open>intrinsic_emittances\<close> is exactly zero.
\<close>

lemma det_scaled_identity: "det (scaled_identity c) = c ^ 4"
  by (simp add: scaled_identity_def drop_col_def upt_rec power4_eq_xxxx)

lemma times_scaled_identity_U:
  "times_m (scaled_identity c) symplectic_U
     = [[0, c, 0, 0], [- c, 0, 0, 0], [0, 0, 0, c], [0, 0, - c, 0]]"
  by (simp add: times_m_def scaled_identity_def symplectic_U_def)

lemma trace_SU2:
  "trace (times_m [[0, c, 0, 0], [- c, 0, 0, 0], [0, 0, 0, c], [0, 0, - c, 0]]
                  [[0, c, 0, 0], [- c, 0, 0, 0], [0, 0, 0, c], [0, 0, - c, 0]]) = - 4 * c ^ 2"
  by (simp add: times_m_def trace_def upt_rec power2_eq_square)


lemma radicand_scaled_identity:
  "(trace (times_m (times_m (scaled_identity c) symplectic_U)
                   (times_m (scaled_identity c) symplectic_U)))\<^sup>2
     - 16 * det (scaled_identity c) = 0"
  by (simp add: times_scaled_identity_U trace_SU2 det_scaled_identity power_mult_distrib)

lemma emittances_identity: "emittances (scaled_identity 1) = Inr (1, 1, 1, 1)"
proof -
  have a: "apparent_emittances (scaled_identity 1) = Inr (1, 1)"
    by (simp add: apparent_emittances_def py_sqrt_def scaled_identity_def get_def)
  have i: "intrinsic_emittances (scaled_identity 1) = Inr (1, 1)"
    using real_sqrt_abs [of 2]
    by (simp add: intrinsic_emittances_def Let_def times_scaled_identity_U trace_SU2
        det_scaled_identity py_sqrt_def)
  show ?thesis by (simp add: emittances_def a i)
qed

lemma eig_contract_negative_diagonal:
  assumes "eig_contract A es" "i < 4" "get A i i < 0"
  shows "\<not> list_all (\<lambda>e. e \<ge> 0) es"
proof
  assume nonneg: "list_all (\<lambda>e. e \<ge> 0) es"
  from assms(1) obtain V :: "nat \<Rightarrow> nat \<Rightarrow> real"
    where len: "length es = 4"
      and dec: "\<forall>i<4. \<forall>j<4. get A i j = (\<Sum>k<4. V i k * es ! k * V j k)"
    unfolding eig_contract_def by blast
  have "0 \<le> V i k * es ! k * V i k" if "k < 4" for k
  proof -
    have "0 \<le> es ! k" using nonneg that len by (simp add: list_all_length)
    moreover have "0 \<le> V i k * V i k" by (rule zero_le_square)
    ultimately have "0 \<le> (V i k * V i k) * es ! k"
      by (rule mult_nonneg_nonneg [rotated])
    moreover have "(V i k * V i k) * es ! k = V i k * es ! k * V i k"
      by (simp only: mult_ac)
    ultimately show ?thesis by simp
  qed
  then have "0 \<le> (\<Sum>k<4. V i k * es ! k * V i k)"
    by (intro sum_nonneg) simp
  moreover have "get A i i = (\<Sum>k<4. V i k * es ! k * V i k)"
    using dec assms(2) by blast
  ultimately show False using assms(3) by linarith
qed

lemma is_valid_cov_negative_diagonal:
  assumes "symmetric4 Sigma'" "eig_contract Sigma' (eig Sigma')" "i < 4" "get Sigma' i i < 0"
  shows "is_valid_cov eig Sigma' = Inr False"
proof -
  have "\<not> is_positive_definite eig Sigma'"
    unfolding is_positive_definite_def
    using eig_contract_negative_diagonal [OF assms(2-4)] .
  then show ?thesis by (simp add: is_valid_cov_def)
qed

section \<open>Facts about the physicality gate\<close>

lemma refit_prints_unphysical:
  "refit minimize rnd meas Sigma' \<noteq> Inr ([''Covariance matrix is physical.''], S)"
  by (auto simp: refit_def Let_def split: prod.splits sum.splits list.splits)

lemma example_system_solved:
  "(case form_Ab (zip example_transfer_mats example_moments) of
      (A, b) \<Rightarrow> map (\<lambda>row. sum_list (map2 (*) row identity_moments)) A = b)"
  by (simp add: example_transfer_mats_def example_moments_def identity_moments_def get_def)

lemma identity_passes_module_test: "is_valid_cov diag_eig (scaled_identity 1) = Inr True"
proof -
  have "emittances (scaled_identity 1) = Inr (1, 1, 1, 1)"
    by (rule emittances_identity)
  then show ?thesis
    by (simp add: is_valid_cov_def is_positive_definite_def diag_eig_def det_scaled_identity)
      (simp add: scaled_identity_def get_def upt_rec)
qed

lemma identity_fails_nested_test: "is_physical_cov diag_eig (scaled_identity 1) = Inr False"
  by (simp add: is_physical_cov_def reconstruct_is_positive_definite_def diag_eig_def
      scaled_identity_def get_def upt_rec)

lemma unphysical_passes_nested_test:
  "is_physical_cov diag_eig [[- 1, 0, 0, 0], [0, - 1, 0, 0], [0, 0, 1, 0], [0, 0, 0, 1]] = Inr True
   \<and> is_valid_cov diag_eig [[- 1, 0, 0, 0], [0, - 1, 0, 0], [0, 0, 1, 0], [0, 0, 0, 1]] = Inr False"
proof -
  let ?S = "[[- 1, 0, 0, 0], [0, - 1, 0, 0], [0, 0, 1, 0], [0, 0, 0, 1 :: real]]"
  have e: "diag_eig ?S = [- 1, - 1, 1, 1]"
    by (simp add: diag_eig_def get_def upt_rec)
  have d: "det ?S = 1"
    by (simp add: drop_col_def upt_rec)
  have a: "apparent_emittances ?S = Inr (1, 1)"
    by (simp add: apparent_emittances_def py_sqrt_def get_def)
  have t: "trace (times_m (times_m ?S symplectic_U) (times_m ?S symplectic_U)) = - 4"
    by (simp add: times_m_def symplectic_U_def trace_def upt_rec)
  have i: "intrinsic_emittances ?S = Inr (1, 1)"
    by (simp add: intrinsic_emittances_def Let_def t d py_sqrt_def sqrt4 del: det.simps)
  have em: "emittances ?S = Inr (1, 1, 1, 1)"
    by (simp add: emittances_def a i)
  show ?thesis
    by (simp add: is_physical_cov_def reconstruct_is_positive_definite_def is_valid_cov_def
        is_positive_definite_def e d em del: det.simps)
qed

section \<open>Claim C2: what the linear phase range returns\<close>

text \<open>
  C2, as stated, fails. With \<open>mu_min = 5 pi / 2\<close> and \<open>mu_max = pi\<close> the first
  element is \<open>mu_min\<close> itself, not its wrapped value \<open>pi / 2\<close>. With
  \<open>mu_min = 7 pi / 4\<close>, \<open>mu_max = pi / 4\<close> and \<open>n = 2\<close> the second element has been
  wrapped, and the absolute change \<open>3 pi / 2\<close> between the two elements is not the step
  \<open>pi / 2\<close>.
\<close>

theorem lin_phase_range_counterexample:
  "lin_phase_range (5 * pi / 2) pi 2 True = Inr [5 * pi / 2, pi]
   \<and> 5 * pi / 2 \<noteq> put_angle_in_range (5 * pi / 2)
   \<and> lin_phase_range (7 * pi / 4) (pi / 4) 2 True = Inr [7 * pi / 4, pi / 4]
   \<and> \<bar>pi / 4 - 7 * pi / 4\<bar>
       \<noteq> min \<bar>pi / 4 - 7 * pi / 4\<bar> (2 * pi - \<bar>pi / 4 - 7 * pi / 4\<bar>) / of_int (2 - 1)"
proof -
  have w3: "put_angle_in_range (3 * pi) = pi"
    by (rule put_angle_in_range_eqI [where m = 1]) simp_all
  have w5: "put_angle_in_range (5 * pi / 2) = pi / 2"
    by (rule put_angle_in_range_eqI [where m = 1]) simp_all
  have w9: "put_angle_in_range (9 * pi / 4) = pi / 4"
    by (rule put_angle_in_range_eqI [where m = 1]) simp_all
  have d1: "short_diff (5 * pi / 2) pi = pi / 2"
    by (simp add: short_diff_def Let_def abs_if)
  have d2: "short_diff (7 * pi / 4) (pi / 4) = pi / 2"
    by (simp add: short_diff_def Let_def abs_if)
  have a: "lin_phase_range (5 * pi / 2) pi 2 True = Inr [5 * pi / 2, pi]"
    by (simp add: lin_phase_range_def Let_def d1 w3)
  have b: "5 * pi / 2 \<noteq> put_angle_in_range (5 * pi / 2)"
    by (simp add: w5)
  have c: "lin_phase_range (7 * pi / 4) (pi / 4) 2 True = Inr [7 * pi / 4, pi / 4]"
    by (simp add: lin_phase_range_def Let_def d2 w9)
  have d: "\<bar>pi / 4 - 7 * pi / 4\<bar>
       \<noteq> min \<bar>pi / 4 - 7 * pi / 4\<bar> (2 * pi - \<bar>pi / 4 - 7 * pi / 4\<bar>) / of_int (2 - 1)"
    by (simp add: abs_if min_def)
  show ?thesis using a b c d by blast
qed


text \<open>
  C2, amended. For \<open>n \<ge> 2\<close> the call returns \<open>n\<close> phases; the first is \<open>mu_min\<close>
  as given; every later one is the previous one plus the step
  \<open>min(|mu_max - mu_min|, 2 pi - |mu_max - mu_min|) / (n - 1)\<close>, wrapped into
  \<open>[0, 2 pi)\<close>; so the change between two consecutive elements is exactly the step
  whenever the sum needs no wrapping.
\<close>

theorem lin_phase_range_steps:
  fixes mu_min mu_max :: real and n :: int
  assumes "2 \<le> n"
  defines "step \<equiv> min \<bar>mu_max - mu_min\<bar> (2 * pi - \<bar>mu_max - mu_min\<bar>) / of_int (n - 1)"
  shows "\<exists>ps. lin_phase_range mu_min mu_max n True = Inr ps
           \<and> length ps = nat n
           \<and> ps ! 0 = mu_min
           \<and> (\<forall>k. Suc k < nat n \<longrightarrow> ps ! Suc k = put_angle_in_range (ps ! k + step))
           \<and> (\<forall>k. Suc k < nat n \<longrightarrow> 0 \<le> ps ! k + step \<longrightarrow> ps ! k + step < 2 * pi
                  \<longrightarrow> ps ! Suc k - ps ! k = step)"
proof -
  define ps where "ps = phase_steps (nat (n - 1)) step [mu_min]"
  have run: "lin_phase_range mu_min mu_max n True = Inr ps"
    using assms(1) by (simp add: lin_phase_range_Inr ps_def step_def short_diff_min)
  have len: "length ps = nat n"
    using assms(1) by (simp add: ps_def length_phase_steps)
  have first: "ps ! 0 = mu_min"
    by (simp add: ps_def phase_steps_prefix)
  have nxt: "ps ! Suc k = put_angle_in_range (ps ! k + step)" if "Suc k < nat n" for k
    unfolding ps_def using that assms(1) by (intro phase_steps_next) auto
  have nowrap: "ps ! Suc k - ps ! k = step"
    if "Suc k < nat n" "0 \<le> ps ! k + step" "ps ! k + step < 2 * pi" for k
    using nxt [OF that(1)] put_angle_in_range_id [OF that(2) that(3)] by simp
  show ?thesis
    using run len first nxt nowrap by blast
qed


text \<open>C2, witness: three phases from 0 to 1 in steps of one half.\<close>

theorem lin_phase_range_steps_witness:
  "(2::int) \<le> 3 \<and> (\<exists>ps. lin_phase_range 0 1 3 True = Inr ps \<and> length ps = 3 \<and> ps ! 0 = 0
     \<and> ps ! 1 - ps ! 0 = 1 / 2)"
proof -
  have pi2: "2 \<le> pi" by (rule pi_ge_two)
  have n: "(2::int) \<le> 3" by simp
  have m: "min \<bar>1 - 0\<bar> (2 * pi - \<bar>1 - 0\<bar>) / real_of_int (3 - 1) = 1 / 2"
    using pi2 by (simp add: min_def)
  from lin_phase_range_steps [OF n, of 0 1, unfolded m]
  obtain ps where ps: "lin_phase_range 0 1 3 True = Inr ps" "length ps = nat 3" "ps ! 0 = 0"
    and st: "\<forall>k. Suc k < nat 3 \<longrightarrow> 0 \<le> ps ! k + 1 / 2
        \<longrightarrow> ps ! k + 1 / 2 < 2 * pi \<longrightarrow> ps ! Suc k - ps ! k = 1 / 2"
    by blast
  have "Suc 0 < nat 3" "0 \<le> ps ! 0 + 1 / 2" "ps ! 0 + 1 / 2 < 2 * pi"
    using ps(3) pi2 by simp_all
  then have "ps ! Suc 0 - ps ! 0 = 1 / 2"
    using st by blast
  then show ?thesis using ps by auto
qed


section \<open>Claim C3: the phases of a scan of type 1\<close>

text \<open>
  C3, as stated, fails. With default phases \<open>(0, pi)\<close>, a coverage of 90 degrees and six
  steps, the x phases rise from \<open>7 pi / 4\<close>, wrap, and continue from \<open>pi / 20\<close>: they
  are not monotonic; and the y phases are the reverse of the y sweep, not of the x
  phases. With default phases \<open>(pi, pi)\<close> and a coverage of 270 degrees the x phases
  stop at \<open>3 pi / 4\<close>, short of the upper end \<open>7 pi / 4\<close> of the window.
\<close>

theorem get_phases_for_scan_counterexample:
  "get_phases_for_scan 0 pi 90 6 1
     = Inr [(7 * pi / 4, 5 * pi / 4), (37 * pi / 20, 23 * pi / 20), (39 * pi / 20, 21 * pi / 20),
            (pi / 20, 19 * pi / 20), (3 * pi / 20, 17 * pi / 20), (pi / 4, 3 * pi / 4)]
   \<and> 7 * pi / 4 < 37 * pi / 20 \<and> 39 * pi / 20 > pi / 20
   \<and> [5 * pi / 4, 23 * pi / 20, 21 * pi / 20, 19 * pi / 20, 17 * pi / 20, 3 * pi / 4]
       \<noteq> rev [7 * pi / 4, 37 * pi / 20, 39 * pi / 20, pi / 20, 3 * pi / 20, pi / 4]
   \<and> get_phases_for_scan pi pi 270 6 1
     = Inr [(pi / 4, 3 * pi / 4), (7 * pi / 20, 13 * pi / 20), (9 * pi / 20, 11 * pi / 20),
            (11 * pi / 20, 9 * pi / 20), (13 * pi / 20, 7 * pi / 20), (3 * pi / 4, pi / 4)]
   \<and> 3 * pi / 4 \<noteq> put_angle_in_range (pi + 0.5 * radians 270)"
proof -
  have wa: "put_angle_in_range (- (pi / 4)) = 7 * pi / 4"
    by (rule put_angle_in_range_eqI [where m = "- 1"]) simp_all
  have a: "get_phases_for_scan 0 pi 90 6 1
     = Inr [(7 * pi / 4, 5 * pi / 4), (37 * pi / 20, 23 * pi / 20), (39 * pi / 20, 21 * pi / 20),
            (pi / 20, 19 * pi / 20), (3 * pi / 20, 17 * pi / 20), (pi / 4, 3 * pi / 4)]"
    by (simp add: get_phases_for_scan_def Let_def radians_def wa put_angle_in_range_id
        scan_quarter_turn_x scan_quarter_turn_y)
  have b: "7 * pi / 4 < 37 * pi / 20 \<and> 39 * pi / 20 > pi / 20"
    by simp
  have c: "[5 * pi / 4, 23 * pi / 20, 21 * pi / 20, 19 * pi / 20, 17 * pi / 20, 3 * pi / 4]
       \<noteq> rev [7 * pi / 4, 37 * pi / 20, 39 * pi / 20, pi / 20, 3 * pi / 20, pi / 4]"
    by simp
  have d: "get_phases_for_scan pi pi 270 6 1
     = Inr [(pi / 4, 3 * pi / 4), (7 * pi / 20, 13 * pi / 20), (9 * pi / 20, 11 * pi / 20),
            (11 * pi / 20, 9 * pi / 20), (13 * pi / 20, 7 * pi / 20), (3 * pi / 4, pi / 4)]"
    by (simp add: get_phases_for_scan_def Let_def radians_def put_angle_in_range_id
        scan_three_quarter_turn)
  have e: "3 * pi / 4 \<noteq> put_angle_in_range (pi + 0.5 * radians 270)"
    by (simp add: radians_def put_angle_in_range_id)
  show ?thesis using a b c d e by blast
qed


text \<open>
  C3, amended. For \<open>n_steps \<ge> 2\<close> (so for every even \<open>n_steps \<ge> 6\<close>) a scan of type 1
  returns \<open>n_steps\<close> pairs: the x phases are the linear phase range between the wrapped
  ends of the window around \<open>mux0\<close>, the y phases are the reverse of the linear phase
  range between the wrapped ends of the window around \<open>muy0\<close>. For a coverage between
  0 and 180 degrees, with \<open>c\<close> the coverage in radians, the \<open>k\<close>-th x phase is
  \<open>mux0 - c/2 + k c/(n_steps - 1)\<close> and the \<open>k\<close>-th y phase is
  \<open>muy0 + c/2 - k c/(n_steps - 1)\<close>, each wrapped into \<open>[0, 2 pi)\<close>: x steps up
  while y steps down, modulo a full turn.
\<close>

theorem get_phases_for_scan_type1:
  fixes mux0 muy0 phase_coverage :: real and n_steps :: int
  assumes "2 \<le> n_steps"
  defines "c \<equiv> radians phase_coverage"
  shows "\<exists>xs ys.
           lin_phase_range (put_angle_in_range (mux0 - c / 2)) (put_angle_in_range (mux0 + c / 2))
             n_steps True = Inr xs
         \<and> lin_phase_range (put_angle_in_range (muy0 - c / 2)) (put_angle_in_range (muy0 + c / 2))
             n_steps True = Inr ys
         \<and> get_phases_for_scan mux0 muy0 phase_coverage n_steps 1 = Inr (zip xs (rev ys))
         \<and> length xs = nat n_steps \<and> length ys = nat n_steps
         \<and> (0 \<le> phase_coverage \<and> phase_coverage \<le> 180 \<longrightarrow>
              (\<forall>k < nat n_steps.
                 xs ! k = put_angle_in_range (mux0 - c / 2 + of_nat k * (c / of_int (n_steps - 1)))
               \<and> rev ys ! k
                   = put_angle_in_range (muy0 + c / 2 - of_nat k * (c / of_int (n_steps - 1)))))"
proof -
  obtain xs where xs: "lin_phase_range (put_angle_in_range (mux0 - c / 2))
      (put_angle_in_range (mux0 + c / 2)) n_steps True = Inr xs"
    using assms(1) by (simp add: lin_phase_range_Inr)
  obtain ys where ys: "lin_phase_range (put_angle_in_range (muy0 - c / 2))
      (put_angle_in_range (muy0 + c / 2)) n_steps True = Inr ys"
    using assms(1) by (simp add: lin_phase_range_Inr)
  have lx: "length xs = nat n_steps" and ly: "length ys = nat n_steps"
    using lin_phase_range_length [OF assms(1)] xs ys by blast+
  have run: "get_phases_for_scan mux0 muy0 phase_coverage n_steps 1 = Inr (zip xs (rev ys))"
    using xs ys by (simp add: get_phases_for_scan_def Let_def c_def)
  have formula: "xs ! k = put_angle_in_range (mux0 - c / 2 + of_nat k * (c / of_int (n_steps - 1)))
               \<and> rev ys ! k
                   = put_angle_in_range (muy0 + c / 2 - of_nat k * (c / of_int (n_steps - 1)))"
    if cov: "0 \<le> phase_coverage" "phase_coverage \<le> 180" and k: "k < nat n_steps" for k
  proof -
    have c: "0 \<le> c" "c \<le> pi"
      using cov by (simp_all add: c_def radians_def)
    have x: "xs ! k = put_angle_in_range (mux0 - c / 2 + of_nat k * (c / of_int (n_steps - 1)))"
      using lin_phase_range_wrapped_nth [OF assms(1) xs k] short_diff_window [OF c] by simp
    define i where "i = nat n_steps - Suc k"
    have i: "i < nat n_steps" using k by (simp add: i_def)
    have ik: "real i = of_int (n_steps - 1) - real k"
      using k assms(1) by (simp add: i_def)
    have n0: "real_of_int (n_steps - 1) \<noteq> 0" using assms(1) by simp
    have "rev ys ! k = ys ! i"
      using k ly by (simp add: rev_nth i_def)
    also have "\<dots> = put_angle_in_range (muy0 - c / 2 + of_nat i * (c / of_int (n_steps - 1)))"
      using lin_phase_range_wrapped_nth [OF assms(1) ys i] short_diff_window [OF c] by simp
    also have "muy0 - c / 2 + of_nat i * (c / of_int (n_steps - 1))
               = muy0 + c / 2 - of_nat k * (c / of_int (n_steps - 1))"
      unfolding ik using n0 by (simp add: field_simps)
    finally show ?thesis using x by simp
  qed
  show ?thesis
    using xs ys run lx ly formula by blast
qed



text \<open>C3, witness: the scan around \<open>(0, pi)\<close> with a coverage of 90 degrees.\<close>

theorem get_phases_for_scan_type1_witness:
  "(2::int) \<le> 6 \<and> (0::real) \<le> 90 \<and> (90::real) \<le> 180
   \<and> (\<exists>xs ys. get_phases_for_scan 0 pi 90 6 1 = Inr (zip xs (rev ys))
         \<and> length xs = 6 \<and> length ys = 6
         \<and> xs ! 3 = pi / 20 \<and> rev ys ! 3 = 19 * pi / 20)"
proof -
  have n: "(2::int) \<le> 6" by simp
  have w1: "put_angle_in_range (0 - radians 90 / 2 + real 3 * (radians 90 / real_of_int (6 - 1)))
            = pi / 20"
    by (simp add: radians_def put_angle_in_range_id)
  have w2: "put_angle_in_range (pi + radians 90 / 2 - real 3 * (radians 90 / real_of_int (6 - 1)))
            = 19 * pi / 20"
    by (simp add: radians_def put_angle_in_range_id)
  from get_phases_for_scan_type1 [OF n, of 0 90 pi]
  obtain xs ys where run: "get_phases_for_scan 0 pi 90 6 1 = Inr (zip xs (rev ys))"
    and len: "length xs = nat 6" "length ys = nat 6"
    and f: "(0::real) \<le> 90 \<and> (90::real) \<le> 180 \<longrightarrow>
              (\<forall>k < nat 6.
                 xs ! k = put_angle_in_range (0 - radians 90 / 2 + of_nat k * (radians 90 / of_int (6 - 1)))
               \<and> rev ys ! k
                   = put_angle_in_range (pi + radians 90 / 2 - of_nat k * (radians 90 / of_int (6 - 1))))"
    by blast
  have "(3::nat) < nat 6" by simp
  with f have "xs ! 3 = put_angle_in_range (0 - radians 90 / 2 + real 3 * (radians 90 / real_of_int (6 - 1)))"
    "rev ys ! 3 = put_angle_in_range (pi + radians 90 / 2 - real 3 * (radians 90 / real_of_int (6 - 1)))"
    by auto
  then have "xs ! 3 = pi / 20" "rev ys ! 3 = 19 * pi / 20"
    unfolding w1 w2 by blast+
  then show ?thesis using run len by auto
qed


section \<open>Claim C4: the ramp of the live fields\<close>




section \<open>Claim C9: other modes\<close>

text \<open>
  C9. With an \<open>opt\<close> other than \<open>'model'\<close> and \<open>'live'\<close>, and with \<open>'book'\<close> in
  particular, \<open>set_fields\<close> returns the controller it was given, unchanged, and raises
  nothing; for an \<open>opt\<close> outside \<open>{'model', 'live', 'book'}\<close> both \<open>set_field\<close> and
  \<open>get_field\<close> raise the invalid-option error.
\<close>

theorem set_fields_other_opt:
  "(opt \<noteq> ''model'' \<and> opt \<noteq> ''live'' \<longrightarrow>
      set_fields s quad_ids new_fields opt max_frac_change max_iters sleep_time = Inr s)
   \<and> set_fields s quad_ids new_fields ''book'' max_frac_change max_iters sleep_time = Inr s
   \<and> (opt \<notin> {''model'', ''live'', ''book''} \<longrightarrow>
        set_field s quad_id field opt = Inl invalid_opt
      \<and> get_field s quad_id opt = Inl invalid_opt)"
  by (simp add: set_fields_def set_field_def get_field_def)


text \<open>C9, witness: the mode \<open>'design'\<close> on the example controller.\<close>

theorem set_fields_other_opt_witness:
  "''design'' \<noteq> ''model'' \<and> ''design'' \<noteq> ''live'' \<and> ''design'' \<notin> {''model'', ''live'', ''book''}
   \<and> set_fields example_controller [''RTBT_Mag:QH02''] [110] ''design'' 0.01 100 0.5
       = Inr example_controller
   \<and> set_field example_controller ''RTBT_Mag:QH02'' 110 ''design'' = Inl invalid_opt
   \<and> get_field example_controller ''RTBT_Mag:QH02'' ''design'' = Inl invalid_opt"
  using set_fields_other_opt [of "''design''" example_controller "[''RTBT_Mag:QH02'']" "[110]"
      "0.01" 100 "0.5" "''RTBT_Mag:QH02''" 110]
  by simp


section \<open>Claim C5: the rms ellipse of a diagonal block\<close>

text \<open>
  C5, as stated, fails. In the plane \<open>(x, xp)\<close> of the diagonal matrix with entries
  1, 4, 1, 1 the cross term is 0, yet the tilt is \<open>- pi / 2\<close> and the semi-axes come
  out as \<open>(2, 1)\<close>, swapped with respect to \<open>(sqrt 1, sqrt 4)\<close>; the function of the
  image analysis does the same on the moments \<open>(1, 4, 0)\<close>.
\<close>

theorem rms_ellipse_dims_counterexample:
  "rms_ellipse_dims [[1, 0, 0, 0], [0, 4, 0, 0], [0, 0, 1, 0], [0, 0, 0, 1]] ''x'' ''xp''
     = Inr (- pi / 2, 2, 1)
   \<and> - pi / 2 \<noteq> 0 \<and> (2::real) \<noteq> sqrt 1 \<and> 1 \<noteq> sqrt 4
   \<and> rms_ellipse_dims_image 1 4 0 = (2, 1, - pi / 2)"
  by (simp add: rms_ellipse_dims_def rms_ellipse_dims_image_def str_to_int_def get_def
      Let_def atan2_zero sqrt4)


text \<open>
  C5, amended. For a projection plane \<open>(i, j)\<close> with \<open>sig_ij = 0\<close> and non-negative
  \<open>sig_ii\<close>, \<open>sig_jj\<close>: when \<open>sig_ii \<ge> sig_jj\<close> the result is \<open>phi = 0\<close>,
  \<open>c1 = sqrt sig_ii\<close>, \<open>c2 = sqrt sig_jj\<close>; when \<open>sig_ii < sig_jj\<close> it is
  \<open>phi = - pi / 2\<close>, \<open>c1 = sqrt sig_jj\<close>, \<open>c2 = sqrt sig_ii\<close>. The function of
  the image analysis returns the same three numbers, as \<open>(c1, c2, angle)\<close>.
\<close>

theorem rms_ellipse_dims_diagonal_block:
  assumes "str_to_int dim1 = Some i" "str_to_int dim2 = Some j" "get Sigma' i j = 0"
    "0 \<le> get Sigma' i i" "0 \<le> get Sigma' j j"
  shows "(get Sigma' j j \<le> get Sigma' i i \<longrightarrow>
            rms_ellipse_dims Sigma' dim1 dim2
              = Inr (0, sqrt (get Sigma' i i), sqrt (get Sigma' j j))
          \<and> rms_ellipse_dims_image (get Sigma' i i) (get Sigma' j j) (get Sigma' i j)
              = (sqrt (get Sigma' i i), sqrt (get Sigma' j j), 0))
       \<and> (get Sigma' i i < get Sigma' j j \<longrightarrow>
            rms_ellipse_dims Sigma' dim1 dim2
              = Inr (- pi / 2, sqrt (get Sigma' j j), sqrt (get Sigma' i i))
          \<and> rms_ellipse_dims_image (get Sigma' i i) (get Sigma' j j) (get Sigma' i j)
              = (sqrt (get Sigma' j j), sqrt (get Sigma' i i), - pi / 2))"
  using rms_ellipse_dims_uncorrelated [OF assms]
    rms_ellipse_dims_image_uncorrelated [OF assms(4,5)] assms(3)
  by simp


text \<open>C5, witness: the diagonal matrix with entries 4, 1, 1, 1, in both orders of the plane.\<close>

theorem rms_ellipse_dims_diagonal_block_witness:
  "str_to_int ''x'' = Some 0 \<and> str_to_int ''xp'' = Some 1
   \<and> get [[4, 0, 0, 0], [0, 1, 0, 0], [0, 0, 1, 0], [0, 0, 0, 1]] 0 1 = 0
   \<and> rms_ellipse_dims [[4, 0, 0, 0], [0, 1, 0, 0], [0, 0, 1, 0], [0, 0, 0, 1]] ''x'' ''xp''
       = Inr (0, 2, 1)
   \<and> rms_ellipse_dims [[4, 0, 0, 0], [0, 1, 0, 0], [0, 0, 1, 0], [0, 0, 0, 1]] ''xp'' ''x''
       = Inr (- pi / 2, 2, 1)"
proof -
  let ?S = "[[4, 0, 0, 0], [0, 1, 0, 0], [0, 0, 1, 0], [0, 0, 0, 1 :: real]]"
  have h1: "str_to_int ''x'' = Some 0" and h2: "str_to_int ''xp'' = Some 1"
    by (simp_all add: str_to_int_def)
  have h3: "get ?S 0 1 = 0" and h3': "get ?S 1 0 = 0"
    and h4: "0 \<le> get ?S 0 0" and h5: "0 \<le> get ?S 1 1"
    by (simp_all add: get_def)
  from rms_ellipse_dims_diagonal_block [OF h1 h2 h3 h4 h5]
  have a: "rms_ellipse_dims ?S ''x'' ''xp'' = Inr (0, 2, 1)"
    by (simp add: get_def sqrt4)
  from rms_ellipse_dims_diagonal_block [OF h2 h1 h3' h5 h4]
  have b: "rms_ellipse_dims ?S ''xp'' ''x'' = Inr (- pi / 2, 2, 1)"
    by (simp add: get_def sqrt4)
  show ?thesis using h1 h2 h3 a b by blast
qed


section \<open>Claim C6: Twiss parameters and apparent emittances\<close>

text \<open>
  C6. Whenever \<open>apparent_emittances\<close> returns \<open>(eps_x, eps_y)\<close>, both nonzero,
  \<open>twiss2D\<close> returns Twiss parameters with \<open>beta_x eps_x = Sigma[0][0]\<close>,
  \<open>alpha_x eps_x = - Sigma[0][1]\<close>, \<open>beta_y eps_y = Sigma[2][2]\<close> and
  \<open>alpha_y eps_y = - Sigma[2][3]\<close>.
\<close>

theorem twiss2D_consistent:
  assumes "apparent_emittances Sigma' = Inr (eps_x, eps_y)" "eps_x \<noteq> 0" "eps_y \<noteq> 0"
  shows "\<exists>alpha_x alpha_y beta_x beta_y.
           twiss2D Sigma' = Inr (alpha_x, alpha_y, beta_x, beta_y)
         \<and> beta_x * eps_x = get Sigma' 0 0 \<and> alpha_x * eps_x = - get Sigma' 0 1
         \<and> beta_y * eps_y = get Sigma' 2 2 \<and> alpha_y * eps_y = - get Sigma' 2 3"
  using assms by (simp add: twiss2D_def Let_def)


text \<open>C6, witness: the diagonal matrix with entries 4, 1, 1, 4, whose emittances are 2.\<close>

theorem twiss2D_consistent_witness:
  "apparent_emittances [[4, 0, 0, 0], [0, 1, 0, 0], [0, 0, 1, 0], [0, 0, 0, 4]] = Inr (2, 2)
   \<and> (2::real) \<noteq> 0
   \<and> (\<exists>alpha_x alpha_y beta_x beta_y.
         twiss2D [[4, 0, 0, 0], [0, 1, 0, 0], [0, 0, 1, 0], [0, 0, 0, 4]]
           = Inr (alpha_x, alpha_y, beta_x, beta_y)
       \<and> beta_x * 2 = 4 \<and> alpha_x * 2 = 0 \<and> beta_y * 2 = 1 \<and> alpha_y * 2 = 0)"
proof -
  let ?S = "[[4, 0, 0, 0], [0, 1, 0, 0], [0, 0, 1, 0], [0, 0, 0, 4 :: real]]"
  have h: "apparent_emittances ?S = Inr (2, 2)"
    by (simp add: apparent_emittances_def py_sqrt_def get_def sqrt4)
  have n: "(2::real) \<noteq> 0" by simp
  from twiss2D_consistent [OF h n n] show ?thesis
    using h by (simp add: get_def)
qed


section \<open>Claim C8: the derived parameter of the coupling matrix\<close>







section \<open>Claim C10: the method of BeamStats\<close>

text \<open>
  C10. Called on any instance with any two arguments, \<open>BeamStats.rms_ellipse_dims\<close>
  receives three positional arguments for its two parameters and raises \<open>TypeError\<close>.
  Called with one argument it binds the instance to \<open>dim1\<close>, and the body fails on the
  unbound name \<open>self\<close>. So every call fails, whatever the arguments.
\<close>

theorem BeamStats_rms_ellipse_dims_fails:
  "call_method BeamStats_rms_ellipse_dims inst [dim1, dim2] = Inl TypeError
   \<and> call_method BeamStats_rms_ellipse_dims inst [dim1] = Inl (NameError ''self'')
   \<and> (\<exists>e. call_method BeamStats_rms_ellipse_dims inst args = Inl e)"
proof -
  have a: "call_method BeamStats_rms_ellipse_dims inst [dim1, dim2] = Inl TypeError"
    by (simp add: call_method_def BeamStats_rms_ellipse_dims_def)
  have b: "call_method BeamStats_rms_ellipse_dims inst [dim1] = Inl (NameError ''self'')"
    by (simp add: call_method_def BeamStats_rms_ellipse_dims_def no_global_self)
  have c: "\<exists>e. call_method BeamStats_rms_ellipse_dims inst args = Inl e"
    by (simp add: call_method_def BeamStats_rms_ellipse_dims_def no_global_self
        split: list.splits)
  show ?thesis using a b c by blast
qed


section \<open>Claim C7: valid covariance matrices\<close>

text \<open>
  C7 has two halves. The first holds: when the eigenvalues returned for a matrix meet the
  contract of the matrix library, a negative diagonal entry forces a negative eigenvalue,
  and \<open>is_valid_cov\<close> returns \<open>False\<close> (\<open>is_valid_cov_negative_diagonal\<close>). The
  second does not hold of the program. On \<open>c\<close> times the identity the radicand
  \<open>trSU2\<^sup>2 - 16 detS\<close> is exactly zero (\<open>radicand_scaled_identity\<close>), and the source
  takes its square root without a guard; in the floating-point arithmetic of the program
  the two terms are rounded separately and their difference can fall below zero. With
  \<open>c = 0.01\<close> the computed trace is \<open>-0.0004\<close>, the computed determinant is
  \<open>1.0000000000000002e-08\<close> and the radicand comes out as \<open>-2.6e-23\<close>, so
  \<open>math.sqrt\<close> raises where the claim promises \<open>True\<close>. Rounding is outside this
  development, so the failure is recorded here and not proved; no theorem of the file
  states the second half.
\<close>

section \<open>Claim C1: the physicality gate of reconstruct\<close>

text \<open>
  C1 does not hold of the code. The test nested in \<open>reconstruct\<close> asks for some
  negative eigenvalue where the test of the module asks for none. Four measurements of a
  beam whose covariance matrix is the identity give a least-squares system that the
  moments of the identity solve exactly; the identity passes \<open>is_valid_cov\<close>, fails
  the nested \<open>is_physical_cov\<close>, and \<open>reconstruct\<close> goes on to the nonlinear re-fit
  instead of returning it. Conversely the matrix with diagonal \<open>-1, -1, 1, 1\<close>, which
  \<open>is_valid_cov\<close> rejects, passes the nested test.
\<close>

theorem reconstruct_gate_inverted:
  "is_valid_cov diag_eig (scaled_identity 1) = Inr True
   \<and> is_physical_cov diag_eig (scaled_identity 1) = Inr False
   \<and> (case form_Ab (zip example_transfer_mats example_moments) of
         (A, b) \<Rightarrow> map (\<lambda>row. sum_list (map2 (*) row identity_moments)) A = b)
   \<and> to_mat identity_moments = Inr (scaled_identity 1)
   \<and> reconstruct (\<lambda>A b. Inr identity_moments) diag_eig minimize rnd
        example_transfer_mats example_moments True
      = refit minimize rnd (zip example_transfer_mats example_moments) (scaled_identity 1)
   \<and> reconstruct (\<lambda>A b. Inr identity_moments) diag_eig minimize rnd
        example_transfer_mats example_moments True
      \<noteq> Inr ([''Covariance matrix is physical.''], scaled_identity 1)
   \<and> is_physical_cov diag_eig [[- 1, 0, 0, 0], [0, - 1, 0, 0], [0, 0, 1, 0], [0, 0, 0, 1]]
      = Inr True
   \<and> is_valid_cov diag_eig [[- 1, 0, 0, 0], [0, - 1, 0, 0], [0, 0, 1, 0], [0, 0, 0, 1]]
      = Inr False"
proof -
  have m: "to_mat identity_moments = Inr (scaled_identity 1)"
    by (simp add: to_mat_def identity_moments_def scaled_identity_def)
  have r: "reconstruct (\<lambda>A b. Inr identity_moments) diag_eig minimize rnd
        example_transfer_mats example_moments True
      = refit minimize rnd (zip example_transfer_mats example_moments) (scaled_identity 1)"
    by (simp add: reconstruct_def m identity_fails_nested_test split: prod.splits)
  show ?thesis
    using identity_passes_module_test identity_fails_nested_test example_system_solved m r
      refit_prints_unphysical unphysical_passes_nested_test
    by simp
qed



end
